theory Spec2Isabelle
  imports Main
begin

section \<open>Terragrunt configuration resolution (config/config.go)\<close>

text \<open>
  A shallow embedding of \<^verbatim>\<open>config/config.go\<close>: the configuration structs, the detection
  of the two file formats, the parse pipeline with its single level of includes, and the
  merge of a child configuration with its included parent.

  Go strings are byte strings and are modelled as \<^typ>\<open>string\<close>. A pointer that may be
  \<^verbatim>\<open>nil\<close> is an \<^typ>\<open>'a option\<close>. A Go result pair \<^verbatim>\<open>(value, error)\<close> is a sum
  \<open>error + value\<close> with \<open>Inl\<close> the error. \<^verbatim>\<open>errors.WithStackTrace\<close> only attaches a
  stack trace to the error it is given and is modelled as the identity.
\<close>

subsection \<open>Constants\<close>

definition DefaultTerragruntConfigPath :: string where
  "DefaultTerragruntConfigPath = ''terraform.tfvars''"

definition OldTerragruntConfigPath :: string where
  "OldTerragruntConfigPath = ''.terragrunt''"

subsection \<open>Data model\<close>

text \<open>\<^verbatim>\<open>IncludeConfig\<close>: the parent configuration file a child includes.\<close>

record IncludeConfig =
  Path :: string

text \<open>\<^verbatim>\<open>ModuleDependencies\<close>: paths of the modules to apply before this one.\<close>

record ModuleDependencies =
  Paths :: "string list"

text \<open>\<^verbatim>\<open>TerraformExtraArguments\<close>: a group of extra arguments, keyed by \<open>Name\<close>.\<close>

record TerraformExtraArguments =
  Name :: string
  Arguments :: "string list"
  RequiredVarFiles :: "string list"
  OptionalVarFiles :: "string list"
  Commands :: "string list"

text \<open>\<^verbatim>\<open>TerraformConfig\<close>: where to find the Terraform files, and the extra arguments.\<close>

record TerraformConfig =
  ExtraArgs :: "TerraformExtraArguments list"
  Source :: string

text \<open>
  \<^verbatim>\<open>terragruntConfigFile\<close>: what a configuration file may contain. The types
  \<^verbatim>\<open>remote.RemoteState\<close> and \<^verbatim>\<open>LockConfig\<close> are opaque to this file, which only tests
  them against \<^verbatim>\<open>nil\<close> and hands the remote state to its own methods; they are the type
  parameters \<open>'rs\<close> and \<open>'lk\<close>.
\<close>

record ('rs, 'lk) terragruntConfigFile =
  Terraform :: "TerraformConfig option"
  Include :: "IncludeConfig option"
  Lock :: "'lk option"
  RemoteState :: "'rs option"
  Dependencies :: "ModuleDependencies option"

text \<open>\<^verbatim>\<open>tfvarsFileWithTerragruntConfig\<close>: a .tfvars file with a \<^verbatim>\<open>terragrunt = { ... }\<close> block.\<close>

record ('rs, 'lk) tfvarsFileWithTerragruntConfig =
  Terragrunt :: "('rs, 'lk) terragruntConfigFile option"

text \<open>
  \<^verbatim>\<open>TerragruntConfig\<close>: a parsed and expanded configuration. Its three fields carry the
  names of fields of \<^verbatim>\<open>terragruntConfigFile\<close>, as in the source; below, the unqualified
  names \<open>Terraform\<close>, \<open>RemoteState\<close> and \<open>Dependencies\<close> are the fields of this record and
  those of the file are written \<open>terragruntConfigFile.Terraform\<close> and so on.
\<close>

record 'rs TerragruntConfig =
  Terraform :: "TerraformConfig option"
  RemoteState :: "'rs option"
  Dependencies :: "ModuleDependencies option"

text \<open>
  \<^verbatim>\<open>options.TerragruntOptions\<close>: of the options, this file reads the path of the
  configuration being resolved and writes to the logger; what is written to the logger is
  part of the trace below.
\<close>

record TerragruntOptions =
  TerragruntConfigPath :: string

subsection \<open>Errors\<close>

text \<open>
  The three error types of the file, and \<open>ExternalError\<close> for an error that a
  collaborator returns (reading a file, interpolation, HCL decoding, validation of the
  remote state).
\<close>

datatype error =
    IncludedConfigMissingPath string
  | TooManyLevelsOfInheritance (ConfigPath: string) (FirstLevelIncludePath: string)
      (SecondLevelIncludePath: string)
  | CouldNotResolveTerragruntConfigInFile string
  | ExternalError string

subsection \<open>Effects\<close>

text \<open>
  The code writes to a logger, asks the file system, and calls the interpolation of
  \<^verbatim>\<open>ResolveTerragruntConfigString\<close>. Every function that does so returns, beside its
  result, the list of these calls in the order in which it makes them.
  The four \<open>Printf\<close> events are the four calls of \<^verbatim>\<open>Logger.Printf\<close>, each with the
  value its message names.
\<close>

datatype event =
    PrintfReadingConfig string
  | PrintfDeprecatedFormat string
  | PrintfLockWarning string
  | PrintfOverride string
  | CallFileExists string
  | CallReadFileAsString string
  | CallResolveString string "IncludeConfig option"

subsection \<open>Merging extra arguments\<close>

text \<open>
  The inner loop of \<^verbatim>\<open>mergeExtraArgs\<close>, \<^verbatim>\<open>for i, parent := range result\<close>: the first
  index whose group has the name looked for.
\<close>

fun findParent :: "string \<Rightarrow> TerraformExtraArguments list \<Rightarrow> nat option" where
  "findParent n [] = None"
| "findParent n (parent # result) =
     (if Name parent = n then Some 0 else map_option Suc (findParent n result))"

text \<open>
  \<^verbatim>\<open>mergeExtraArgs\<close>: the outer loop over the child's groups, with \<open>result\<close> the list
  that starts as the parent's. A group whose name is found overwrites \<open>result[i]\<close> and is
  logged; any other group is appended. The function returns the final \<open>result\<close>, which the
  source stores through the pointer \<open>parentExtraArgs\<close>.
\<close>

fun mergeExtraArgs ::
  "TerraformExtraArguments list \<Rightarrow> TerraformExtraArguments list
     \<Rightarrow> event list \<times> TerraformExtraArguments list" where
  "mergeExtraArgs [] result = ([], result)"
| "mergeExtraArgs (child # childExtraArgs) result =
     (case findParent (Name child) result of
        Some i \<Rightarrow>
          (case mergeExtraArgs childExtraArgs (result[i := child]) of
             (evs, r) \<Rightarrow> (PrintfOverride (Name child) # evs, r))
      | None \<Rightarrow> mergeExtraArgs childExtraArgs (result @ [child]))"

subsection \<open>Merging a configuration with the included one\<close>

text \<open>
  \<^verbatim>\<open>mergeConfigWithIncludedConfig\<close>. The source updates the included configuration in
  place and returns it; here each update gives a new record. The error of the result pair
  is always \<^verbatim>\<open>nil\<close> in the source, so the result is always \<open>Inr\<close>.
\<close>

definition mergeConfigWithIncludedConfig ::
  "'rs TerragruntConfig \<Rightarrow> 'rs TerragruntConfig option
     \<Rightarrow> event list \<times> (error + 'rs TerragruntConfig)" where
  "mergeConfigWithIncludedConfig config includedConfig =
     (case includedConfig of
        None \<Rightarrow> ([], Inr config)
      | Some included \<Rightarrow>
          (let included1 =
                 (if RemoteState config \<noteq> None
                  then included\<lparr>RemoteState := RemoteState config\<rparr> else included);
               (evs, included2) =
                 (case Terraform config of
                    None \<Rightarrow> ([], included1)
                  | Some childTerraform \<Rightarrow>
                      (case Terraform included1 of
                         None \<Rightarrow> ([], included1\<lparr>Terraform := Some childTerraform\<rparr>)
                       | Some parentTerraform \<Rightarrow>
                           (let parentTerraform1 =
                                  (if Source childTerraform \<noteq> ''''
                                   then parentTerraform\<lparr>Source := Source childTerraform\<rparr>
                                   else parentTerraform);
                                (evs, merged) =
                                  mergeExtraArgs (ExtraArgs childTerraform)
                                    (ExtraArgs parentTerraform1)
                            in (evs, included1\<lparr>Terraform :=
                                  Some (parentTerraform1\<lparr>ExtraArgs := merged\<rparr>)\<rparr>))));
               included3 =
                 (if Dependencies config \<noteq> None
                  then included2\<lparr>Dependencies := Dependencies config\<rparr> else included2)
           in (evs, Inr included3)))"

subsection \<open>Collaborators\<close>

text \<open>
  What the file calls and does not define: \<^verbatim>\<open>util.JoinPath\<close>, \<^verbatim>\<open>util.FileExists\<close>,
  \<^verbatim>\<open>util.ReadFileAsString\<close>, \<^verbatim>\<open>filepath.IsAbs\<close>, \<^verbatim>\<open>filepath.Dir\<close>, \<^verbatim>\<open>filepath.Walk\<close>,
  the interpolation \<^verbatim>\<open>ResolveTerragruntConfigString\<close>, \<^verbatim>\<open>hcl.Decode\<close> into each of the two
  structs it is used with, and the methods \<^verbatim>\<open>FillDefaults\<close> and \<^verbatim>\<open>Validate\<close> of the remote
  state. They are parameters of the model, collected in one record. \<open>Walk\<close> gives, for a
  root, the entries for which \<^verbatim>\<open>filepath.Walk\<close> calls its function, in its order: the path,
  \<^verbatim>\<open>info.IsDir()\<close> and the error passed with the entry.
\<close>

type_synonym walkEntry = "string \<times> bool \<times> error option"

record ('rs, 'lk) env =
  JoinPath :: "string \<Rightarrow> string \<Rightarrow> string"
  FileExists :: "string \<Rightarrow> bool"
  ReadFileAsString :: "string \<Rightarrow> error + string"
  IsAbs :: "string \<Rightarrow> bool"
  Dir :: "string \<Rightarrow> string"
  Walk :: "string \<Rightarrow> walkEntry list"
  ResolveTerragruntConfigString ::
    "string \<Rightarrow> IncludeConfig option \<Rightarrow> TerragruntOptions \<Rightarrow> error + string"
  DecodeConfigFile :: "string \<Rightarrow> error + ('rs, 'lk) terragruntConfigFile"
  DecodeTfvarsFile :: "string \<Rightarrow> error + ('rs, 'lk) tfvarsFileWithTerragruntConfig"
  FillDefaults :: "'rs \<Rightarrow> 'rs"
  Validate :: "'rs \<Rightarrow> error option"

text \<open>\<open>emit evs r\<close> puts the events \<open>evs\<close>, which happened first, before those of \<open>r\<close>.\<close>

definition emit :: "event list \<Rightarrow> event list \<times> 'a \<Rightarrow> event list \<times> 'a" where
  "emit evs r = (evs @ fst r, snd r)"

subsection \<open>Format detection\<close>

text \<open>\<^verbatim>\<open>strings.HasSuffix(s, suffix)\<close> of the Go library.\<close>

definition HasSuffix :: "string \<Rightarrow> string \<Rightarrow> bool" where
  "HasSuffix s suffix \<longleftrightarrow>
     length s \<ge> length suffix \<and> drop (length s - length suffix) s = suffix"

definition isOldTerragruntConfig :: "string \<Rightarrow> bool" where
  "isOldTerragruntConfig path = HasSuffix path OldTerragruntConfigPath"

definition DefaultConfigPath :: "('rs, 'lk) env \<Rightarrow> string \<Rightarrow> event list \<times> string" where
  "DefaultConfigPath env workingDir =
     (let path = JoinPath env workingDir OldTerragruntConfigPath in
      emit [CallFileExists path]
        (if FileExists env path then ([], path)
         else ([], JoinPath env workingDir DefaultTerragruntConfigPath)))"

definition containsTerragruntBlock :: "('rs, 'lk) env \<Rightarrow> string \<Rightarrow> bool" where
  "containsTerragruntBlock env configString =
     (case DecodeTfvarsFile env configString of
        Inl err \<Rightarrow> False
      | Inr terragruntConfig \<Rightarrow> Terragrunt terragruntConfig \<noteq> None)"

definition isNewTerragruntConfig ::
  "('rs, 'lk) env \<Rightarrow> string \<Rightarrow> event list \<times> (error + bool)" where
  "isNewTerragruntConfig env path =
     emit [CallReadFileAsString path]
       (case ReadFileAsString env path of
          Inl err \<Rightarrow> ([], Inl err)
        | Inr configContents \<Rightarrow> ([], Inr (containsTerragruntBlock env configContents)))"

definition IsTerragruntConfigFile ::
  "('rs, 'lk) env \<Rightarrow> string \<Rightarrow> event list \<times> (error + bool)" where
  "IsTerragruntConfigFile env path =
     emit [CallFileExists path]
       (if \<not> FileExists env path then ([], Inr False)
        else if isOldTerragruntConfig path then ([], Inr True)
        else isNewTerragruntConfig env path)"

subsection \<open>Discovery\<close>

text \<open>
  The function that \<^verbatim>\<open>FindConfigFilesInPath\<close> passes to \<^verbatim>\<open>filepath.Walk\<close>, with the
  variable \<open>configFiles\<close> it appends to, and the error it returns.
\<close>

definition walkFn ::
  "('rs, 'lk) env \<Rightarrow> string list \<Rightarrow> walkEntry \<Rightarrow> event list \<times> string list \<times> error option" where
  "walkFn env configFiles entry =
     (case entry of (path, isDir, err) \<Rightarrow>
        (case err of
           Some e \<Rightarrow> ([], configFiles, Some e)
         | None \<Rightarrow>
             if isDir then
               (case DefaultConfigPath env path of (evs, configPath) \<Rightarrow>
                  emit evs
                    (case IsTerragruntConfigFile env configPath of
                       (evs', Inl e) \<Rightarrow> (evs', configFiles, Some e)
                     | (evs', Inr isTerragruntConfig) \<Rightarrow>
                         (evs', if isTerragruntConfig then configFiles @ [configPath]
                                else configFiles, None)))
             else ([], configFiles, None)))"

text \<open>\<^verbatim>\<open>filepath.Walk\<close> stops at the first entry for which the function returns an error.\<close>

fun walkLoop ::
  "('rs, 'lk) env \<Rightarrow> string list \<Rightarrow> walkEntry list \<Rightarrow> event list \<times> string list \<times> error option" where
  "walkLoop env configFiles [] = ([], configFiles, None)"
| "walkLoop env configFiles (entry # entries) =
     (case walkFn env configFiles entry of
        (evs, configFiles', Some e) \<Rightarrow> (evs, configFiles', Some e)
      | (evs, configFiles', None) \<Rightarrow> emit evs (walkLoop env configFiles' entries))"

definition FindConfigFilesInPath ::
  "('rs, 'lk) env \<Rightarrow> string \<Rightarrow> event list \<times> string list \<times> error option" where
  "FindConfigFilesInPath env rootPath = walkLoop env [] (Walk env rootPath)"

subsection \<open>Decoding and conversion\<close>

text \<open>
  \<^verbatim>\<open>parseConfigStringAsTerragruntConfigFile\<close>: the result \<open>Inr None\<close> is the pair
  \<^verbatim>\<open>(nil, nil)\<close> of the source, a file decoded without error and with no block.
\<close>

definition parseConfigStringAsTerragruntConfigFile ::
  "('rs, 'lk) env \<Rightarrow> string \<Rightarrow> string \<Rightarrow> error + ('rs, 'lk) terragruntConfigFile option" where
  "parseConfigStringAsTerragruntConfigFile env configString configPath =
     (if isOldTerragruntConfig configPath then
        (case DecodeConfigFile env configString of
           Inl err \<Rightarrow> Inl err
         | Inr terragruntConfig \<Rightarrow> Inr (Some terragruntConfig))
      else
        (case DecodeTfvarsFile env configString of
           Inl err \<Rightarrow> Inl err
         | Inr tfvarsConfig \<Rightarrow> Inr (Terragrunt tfvarsConfig)))"

definition convertToTerragruntConfig ::
  "('rs, 'lk) env \<Rightarrow> ('rs, 'lk) terragruntConfigFile \<Rightarrow> TerragruntOptions
     \<Rightarrow> event list \<times> (error + 'rs TerragruntConfig)" where
  "convertToTerragruntConfig env terragruntConfigFromFile terragruntOptions =
     emit (if Lock terragruntConfigFromFile \<noteq> None
           then [PrintfLockWarning (TerragruntConfigPath terragruntOptions)] else [])
       (case terragruntConfigFile.RemoteState terragruntConfigFromFile of
          Some remoteState \<Rightarrow>
            (case Validate env (FillDefaults env remoteState) of
               Some err \<Rightarrow> ([], Inl err)
             | None \<Rightarrow>
                 ([], Inr \<lparr>Terraform = terragruntConfigFile.Terraform terragruntConfigFromFile,
                           RemoteState = Some (FillDefaults env remoteState),
                           Dependencies =
                             terragruntConfigFile.Dependencies terragruntConfigFromFile\<rparr>))
        | None \<Rightarrow>
            ([], Inr \<lparr>Terraform = terragruntConfigFile.Terraform terragruntConfigFromFile,
                      RemoteState = None,
                      Dependencies =
                        terragruntConfigFile.Dependencies terragruntConfigFromFile\<rparr>))"

subsection \<open>The parse pipeline\<close>

text \<open>
  \<^verbatim>\<open>ParseConfigFile\<close>, \<^verbatim>\<open>parseConfigString\<close> and \<^verbatim>\<open>parseIncludedConfig\<close> call each other.
  A successful parse always gives a configuration (\<^verbatim>\<open>mergeConfigWithIncludedConfig\<close>
  returns one of its two arguments, and the first is never \<^verbatim>\<open>nil\<close>), so the first two
  return a configuration and only \<^verbatim>\<open>parseIncludedConfig\<close>, which returns \<^verbatim>\<open>(nil, nil)\<close> when
  there is no include, returns an option.
\<close>

function
  ParseConfigFile ::
    "('rs, 'lk) env \<Rightarrow> string \<Rightarrow> TerragruntOptions \<Rightarrow> IncludeConfig option
       \<Rightarrow> event list \<times> (error + 'rs TerragruntConfig)"
and
  parseConfigString ::
    "('rs, 'lk) env \<Rightarrow> string \<Rightarrow> TerragruntOptions \<Rightarrow> IncludeConfig option \<Rightarrow> string
       \<Rightarrow> event list \<times> (error + 'rs TerragruntConfig)"
and
  parseIncludedConfig ::
    "('rs, 'lk) env \<Rightarrow> IncludeConfig option \<Rightarrow> TerragruntOptions
       \<Rightarrow> event list \<times> (error + 'rs TerragruntConfig option)"
where
  "ParseConfigFile env configPath terragruntOptions include =
     emit (if isOldTerragruntConfig configPath then [PrintfDeprecatedFormat configPath] else [])
       (emit [CallReadFileAsString configPath]
          (case ReadFileAsString env configPath of
             Inl err \<Rightarrow> ([], Inl err)
           | Inr configString \<Rightarrow>
               parseConfigString env configString terragruntOptions include configPath))"
| "parseConfigString env configString terragruntOptions include configPath =
     emit [CallResolveString configString include]
       (case ResolveTerragruntConfigString env configString include terragruntOptions of
          Inl err \<Rightarrow> ([], Inl err)
        | Inr resolvedConfigString \<Rightarrow>
            (case parseConfigStringAsTerragruntConfigFile env resolvedConfigString configPath of
               Inl err \<Rightarrow> ([], Inl err)
             | Inr None \<Rightarrow> ([], Inl (CouldNotResolveTerragruntConfigInFile configPath))
             | Inr (Some terragruntConfigFile) \<Rightarrow>
                 (case convertToTerragruntConfig env terragruntConfigFile terragruntOptions of
                    (evs, Inl err) \<Rightarrow> (evs, Inl err)
                  | (evs, Inr config) \<Rightarrow>
                      emit evs
                        (if include \<noteq> None \<and> Include terragruntConfigFile \<noteq> None then
                           ([], Inl (TooManyLevelsOfInheritance
                                       (TerragruntConfigPath terragruntOptions)
                                       (Path (the include))
                                       (Path (the (Include terragruntConfigFile)))))
                         else
                           (case parseIncludedConfig env (Include terragruntConfigFile)
                                   terragruntOptions of
                              (evs', Inl err) \<Rightarrow> (evs', Inl err)
                            | (evs', Inr includedConfig) \<Rightarrow>
                                emit evs'
                                  (mergeConfigWithIncludedConfig config includedConfig))))))"
| "parseIncludedConfig env includedConfig terragruntOptions =
     (case includedConfig of
        None \<Rightarrow> ([], Inr None)
      | Some included \<Rightarrow>
          if Path included = '''' then
            ([], Inl (IncludedConfigMissingPath (TerragruntConfigPath terragruntOptions)))
          else
            emit [CallResolveString (Path included) None]
              (case ResolveTerragruntConfigString env (Path included) None terragruntOptions of
                 Inl err \<Rightarrow> ([], Inl err)
               | Inr resolvedIncludePath \<Rightarrow>
                   (case ParseConfigFile env
                           (if \<not> IsAbs env resolvedIncludePath
                            then JoinPath env
                                   (Dir env (TerragruntConfigPath terragruntOptions))
                                   resolvedIncludePath
                            else resolvedIncludePath)
                           terragruntOptions (Some included) of
                      (evs, Inl err) \<Rightarrow> (evs, Inl err)
                    | (evs, Inr config) \<Rightarrow> (evs, Inr (Some config)))))"
  by pat_completeness auto

text \<open>
  The recursion ends because of the check on the levels of inheritance: a parse with an
  include context never resolves a further include.
\<close>

termination
  by (relation "measure (\<lambda>x. case x of
          Inl (env, configPath, opts, include) \<Rightarrow> (if include = None then 5 else 2)
        | Inr (Inl (env, configString, opts, include, configPath)) \<Rightarrow>
            (if include = None then 4 else 1)
        | Inr (Inr (env, includedConfig, opts)) \<Rightarrow>
            (if includedConfig = None then 0 else (3::nat)))")
     auto

declare ParseConfigFile.simps [simp del]
declare parseConfigString.simps [simp del]
declare parseIncludedConfig.simps [simp del]

text \<open>\<^verbatim>\<open>ReadTerragruntConfig\<close>: the entry point, with no include context.\<close>

definition ReadTerragruntConfig ::
  "('rs, 'lk) env \<Rightarrow> TerragruntOptions \<Rightarrow> event list \<times> (error + 'rs TerragruntConfig)" where
  "ReadTerragruntConfig env terragruntOptions =
     emit [PrintfReadingConfig (TerragruntConfigPath terragruntOptions)]
       (ParseConfigFile env (TerragruntConfigPath terragruntOptions) terragruntOptions None)"

subsection \<open>The specification's words\<close>

text \<open>
  The step of the keyed-list merge as the specification words it: a group with the same
  name is replaced in place, at its position; with no such group, the new one is appended.
  It is compared below with the loop of \<^verbatim>\<open>mergeExtraArgs\<close>, which works on indices.
\<close>

fun replaceInPlaceOrAppend ::
  "TerraformExtraArguments \<Rightarrow> TerraformExtraArguments list \<Rightarrow> TerraformExtraArguments list" where
  "replaceInPlaceOrAppend c [] = [c]"
| "replaceInPlaceOrAppend c (p # ps) =
     (if Name p = Name c then c # ps else p # replaceInPlaceOrAppend c ps)"

text \<open>
  The name of a path, for the specification's "its name matches the legacy filename
  exactly": what follows the last separator.
\<close>

definition baseName :: "string \<Rightarrow> string" where
  "baseName path = rev (takeWhile (\<lambda>c. c \<noteq> CHR ''/'') (rev path))"

text \<open>
  The steps of \<^verbatim>\<open>parseConfigString\<close> in the order of the specification's state machine:
  decode, the check for a missing block, the check of the inheritance depth, the
  resolution of the parent, the conversion, the merge. Each step is the function of the
  code for it, the parent being resolved by \<^verbatim>\<open>parseIncludedConfig\<close>; only the order
  differs. It is not the code; it is what the code is compared with.
\<close>

definition claimedOrder_parseConfigString ::
  "('rs, 'lk) env \<Rightarrow> string \<Rightarrow> TerragruntOptions \<Rightarrow> IncludeConfig option \<Rightarrow> string
     \<Rightarrow> event list \<times> (error + 'rs TerragruntConfig)" where
  "claimedOrder_parseConfigString env configString terragruntOptions include configPath =
     emit [CallResolveString configString include]
       (case ResolveTerragruntConfigString env configString include terragruntOptions of
          Inl err \<Rightarrow> ([], Inl err)
        | Inr resolvedConfigString \<Rightarrow>
            (case parseConfigStringAsTerragruntConfigFile env resolvedConfigString configPath of
               Inl err \<Rightarrow> ([], Inl err)
             | Inr None \<Rightarrow> ([], Inl (CouldNotResolveTerragruntConfigInFile configPath))
             | Inr (Some terragruntConfigFile) \<Rightarrow>
                 if include \<noteq> None \<and> Include terragruntConfigFile \<noteq> None then
                   ([], Inl (TooManyLevelsOfInheritance
                               (TerragruntConfigPath terragruntOptions)
                               (Path (the include))
                               (Path (the (Include terragruntConfigFile)))))
                 else
                   (case parseIncludedConfig env (Include terragruntConfigFile)
                           terragruntOptions of
                      (evs, Inl err) \<Rightarrow> (evs, Inl err)
                    | (evs, Inr includedConfig) \<Rightarrow>
                        emit evs
                          (case convertToTerragruntConfig env terragruntConfigFile
                                  terragruntOptions of
                             (evs', Inl err) \<Rightarrow> (evs', Inl err)
                           | (evs', Inr config) \<Rightarrow>
                               emit evs'
                                 (mergeConfigWithIncludedConfig config includedConfig)))))"

subsection \<open>A concrete world\<close>

text \<open>
  A small world on which the theorems are run. Remote state is the name of a backend, and
  its validation fails when the name is empty. Interpolation leaves every string as it is.
  The contents of a file is a key, which the decoder maps to the structure the file holds.
  The child and the parent are those of the scenario of the specification.
\<close>

definition commonApply :: TerraformExtraArguments where
  "commonApply = \<lparr>Name = ''common'', Arguments = [], RequiredVarFiles = [],
                   OptionalVarFiles = [], Commands = [''apply'']\<rparr>"

definition commonPlan :: TerraformExtraArguments where
  "commonPlan = \<lparr>Name = ''common'', Arguments = [], RequiredVarFiles = [],
                  OptionalVarFiles = [], Commands = [''plan'']\<rparr>"

definition onlyParent :: TerraformExtraArguments where
  "onlyParent = \<lparr>Name = ''only-parent'', Arguments = [], RequiredVarFiles = [],
                  OptionalVarFiles = [], Commands = [''apply'']\<rparr>"

definition onlyChild :: TerraformExtraArguments where
  "onlyChild = \<lparr>Name = ''only-child'', Arguments = [''-lock=false''], RequiredVarFiles = [],
                 OptionalVarFiles = [], Commands = [''plan'']\<rparr>"

definition childTerraform :: TerraformConfig where
  "childTerraform = \<lparr>ExtraArgs = [commonApply], Source = ''''\<rparr>"

definition parentTerraform :: TerraformConfig where
  "parentTerraform = \<lparr>ExtraArgs = [commonPlan, onlyParent], Source = ''git::https://x''\<rparr>"

definition childConfig :: "string TerragruntConfig" where
  "childConfig = \<lparr>Terraform = Some childTerraform, RemoteState = None, Dependencies = None\<rparr>"

definition parentConfig :: "string TerragruntConfig" where
  "parentConfig =
     \<lparr>Terraform = Some parentTerraform, RemoteState = Some ''s3'', Dependencies = None\<rparr>"

definition childFile :: "(string, unit) terragruntConfigFile" where
  "childFile = \<lparr>terragruntConfigFile.Terraform = Some childTerraform,
                 Include = Some \<lparr>Path = ''../p.tfvars''\<rparr>, Lock = None,
                 terragruntConfigFile.RemoteState = None,
                 terragruntConfigFile.Dependencies = None\<rparr>"

definition parentFile :: "(string, unit) terragruntConfigFile" where
  "parentFile = \<lparr>terragruntConfigFile.Terraform = Some parentTerraform,
                  Include = None, Lock = None,
                  terragruntConfigFile.RemoteState = Some ''s3'',
                  terragruntConfigFile.Dependencies = None\<rparr>"

definition chainedFile :: "(string, unit) terragruntConfigFile" where
  "chainedFile = \<lparr>terragruntConfigFile.Terraform = None,
                   Include = Some \<lparr>Path = ''../root.tfvars''\<rparr>, Lock = None,
                   terragruntConfigFile.RemoteState = Some ''s3'',
                   terragruntConfigFile.Dependencies = None\<rparr>"

definition invalidChainedFile :: "(string, unit) terragruntConfigFile" where
  "invalidChainedFile = chainedFile\<lparr>terragruntConfigFile.RemoteState := Some ''''\<rparr>"

definition emptyIncludeFile :: "(string, unit) terragruntConfigFile" where
  "emptyIncludeFile = childFile\<lparr>Include := Some \<lparr>Path = ''''\<rparr>\<rparr>"

definition exampleRead :: "string \<Rightarrow> error + string" where
  "exampleRead path =
     (if path = ''/l/a/terraform.tfvars'' then Inr ''child''
      else if path = ''/l/a/../p.tfvars'' then Inr ''parent''
      else if path = ''/l/b/terraform.tfvars'' then Inr ''plain''
      else if path = ''/l/c/terraform.tfvars'' then Inr ''empty-include''
      else if path = ''/l/d/terraform.tfvars'' then Inr ''child''
      else if path = ''/l/d/../p.tfvars'' then Inr ''chained''
      else if path = ''/l/e/terraform.tfvars'' then Inr ''child''
      else if path = ''/l/e/../p.tfvars'' then Inr ''invalid-chained''
      else if path = ''/l/f/terraform.tfvars'' then Inr ''child''
      else if path = ''/l/f/../p.tfvars'' then Inr ''invalid-chained''
      else if path = ''/l/g/terraform.tfvars'' then Inr ''parent''
      else if path = ''/l/g/.terragrunt'' then Inr ''legacy''
      else Inl (ExternalError ''no such file''))"

definition exampleDecode ::
  "string \<Rightarrow> error + (string, unit) tfvarsFileWithTerragruntConfig" where
  "exampleDecode contents =
     (if contents = ''child'' then Inr \<lparr>Terragrunt = Some childFile\<rparr>
      else if contents = ''parent'' then Inr \<lparr>Terragrunt = Some parentFile\<rparr>
      else if contents = ''chained'' then Inr \<lparr>Terragrunt = Some chainedFile\<rparr>
      else if contents = ''invalid-chained'' then Inr \<lparr>Terragrunt = Some invalidChainedFile\<rparr>
      else if contents = ''empty-include'' then Inr \<lparr>Terragrunt = Some emptyIncludeFile\<rparr>
      else if contents = ''plain'' then Inr \<lparr>Terragrunt = None\<rparr>
      else Inl (ExternalError ''not HCL''))"

definition exampleEnv :: "(string, unit) env" where
  "exampleEnv =
     \<lparr>JoinPath = (\<lambda>dir name. dir @ ''/'' @ name),
      FileExists = (\<lambda>path. \<not> isl (exampleRead path)),
      ReadFileAsString = exampleRead,
      IsAbs = (\<lambda>path. take 1 path = ''/''),
      Dir = (\<lambda>path. rev (drop 1 (dropWhile (\<lambda>c. c \<noteq> CHR ''/'') (rev path)))),
      Walk = (\<lambda>root. [(root, True, None)]),
      ResolveTerragruntConfigString = (\<lambda>s include opts. Inr s),
      DecodeConfigFile = (\<lambda>contents.
        if contents = ''legacy'' then Inr parentFile else Inl (ExternalError ''not HCL'')),
      DecodeTfvarsFile = exampleDecode,
      FillDefaults = (\<lambda>remoteState. remoteState),
      Validate = (\<lambda>remoteState.
        if remoteState = '''' then Some (ExternalError ''the backend is missing'')
        else None)\<rparr>"

definition exampleOptions :: TerragruntOptions where
  "exampleOptions = \<lparr>TerragruntConfigPath = ''/l/a/terraform.tfvars''\<rparr>"

section \<open>Properties\<close>

subsection \<open>Events\<close>

lemma fst_emit [simp]: "fst (emit evs r) = evs @ fst r"
  by (simp add: emit_def)

lemma snd_emit [simp]: "snd (emit evs r) = snd r"
  by (simp add: emit_def)

lemma emit_pair [simp]: "emit evs (evs', x) = (evs @ evs', x)"
  by (simp add: emit_def)

lemmas example_defs =
  exampleEnv_def exampleOptions_def exampleRead_def exampleDecode_def
  childFile_def parentFile_def chainedFile_def invalidChainedFile_def
  emptyIncludeFile_def childConfig_def parentConfig_def childTerraform_def parentTerraform_def
  commonApply_def commonPlan_def onlyParent_def onlyChild_def

lemmas pipeline_defs =
  ParseConfigFile.simps parseConfigString.simps parseIncludedConfig.simps
  ReadTerragruntConfig_def parseConfigStringAsTerragruntConfigFile_def
  convertToTerragruntConfig_def mergeConfigWithIncludedConfig_def
  isOldTerragruntConfig_def HasSuffix_def OldTerragruntConfigPath_def
  DefaultTerragruntConfigPath_def

subsection \<open>The keyed-list merge\<close>

lemma replaceInPlaceOrAppend_None:
  "findParent (Name c) ps = None \<Longrightarrow> replaceInPlaceOrAppend c ps = ps @ [c]"
  by (induction ps) (auto split: if_splits)

lemma replaceInPlaceOrAppend_Some:
  "findParent (Name c) ps = Some i \<Longrightarrow> replaceInPlaceOrAppend c ps = ps[i := c]"
  by (induction ps arbitrary: i) (auto split: if_splits)

lemma mergeExtraArgs_fold:
  "snd (mergeExtraArgs cs ps) = fold replaceInPlaceOrAppend cs ps"
  by (induction cs arbitrary: ps)
     (simp_all add: replaceInPlaceOrAppend_None replaceInPlaceOrAppend_Some split_beta
        split: option.splits)

lemma names_replaceInPlaceOrAppend:
  "map Name (replaceInPlaceOrAppend c ps) =
     (if Name c \<in> Name ` set ps then map Name ps else map Name ps @ [Name c])"
  by (induction ps) auto

lemma length_replaceInPlaceOrAppend: "length ps \<le> length (replaceInPlaceOrAppend c ps)"
  by (induction ps) auto

lemma names_fold_take:
  "take (length ps) (map Name (fold replaceInPlaceOrAppend cs ps)) = map Name ps"
proof (induction cs arbitrary: ps)
  case Nil
  then show ?case by simp
next
  case (Cons c cs)
  let ?ps = "replaceInPlaceOrAppend c ps"
  let ?ns = "map Name (fold replaceInPlaceOrAppend cs ?ps)"
  have "take (length ps) ?ns = take (length ps) (take (length ?ps) ?ns)"
    using length_replaceInPlaceOrAppend [of ps c] by (simp add: min_def)
  also have "\<dots> = take (length ps) (map Name ?ps)"
    by (simp only: Cons.IH)
  also have "\<dots> = map Name ps"
    by (simp add: names_replaceInPlaceOrAppend)
  finally show ?case by simp
qed

lemma names_fold:
  "map Name (fold replaceInPlaceOrAppend cs ps) =
     fold (\<lambda>n ns. if n \<in> set ns then ns else ns @ [n]) (map Name cs) (map Name ps)"
  by (induction cs arbitrary: ps) (simp_all add: names_replaceInPlaceOrAppend)

lemma replaceInPlaceOrAppend_distinct:
  "distinct (map Name ps) \<Longrightarrow>
   replaceInPlaceOrAppend c ps =
     map (\<lambda>p. if Name p = Name c then c else p) ps
       @ (if Name c \<in> Name ` set ps then [] else [c])"
proof (induction ps)
  case Nil
  then show ?case by simp
next
  case (Cons p ps)
  show ?case
  proof (cases "Name p = Name c")
    case True
    with Cons.prems have "\<forall>x\<in>set ps. Name x \<noteq> Name c"
      by (auto simp: image_iff)
    then have "map (\<lambda>p. if Name p = Name c then c else p) ps = ps"
      by (intro map_idI) simp
    with True show ?thesis by simp
  next
    case False
    with Cons show ?thesis by auto
  qed
qed

lemma fold_replaceInPlaceOrAppend_distinct:
  "distinct (map Name ps) \<Longrightarrow> distinct (map Name cs) \<Longrightarrow>
   fold replaceInPlaceOrAppend cs ps =
     map (\<lambda>p. case find (\<lambda>c. Name c = Name p) cs of Some c \<Rightarrow> c | None \<Rightarrow> p) ps
       @ filter (\<lambda>c. Name c \<notin> Name ` set ps) cs"
proof (induction cs arbitrary: ps)
  case Nil
  then show ?case by simp
next
  case (Cons c cs)
  let ?ps = "replaceInPlaceOrAppend c ps"
  let ?new = "if Name c \<in> Name ` set ps then [] else [c]"
  have d: "distinct (map Name ?ps)"
    using Cons.prems(1) by (simp add: names_replaceInPlaceOrAppend)
  have dc: "distinct (map Name cs)" and nc: "Name c \<notin> Name ` set cs"
    using Cons.prems(2) by auto
  have fc: "find (\<lambda>x. Name x = Name c) cs = None"
    using nc by (auto simp: find_None_iff image_iff)
  have names: "Name ` set ?ps = insert (Name c) (Name ` set ps)"
  proof -
    have "set (map Name ?ps) = insert (Name c) (set (map Name ps))"
      unfolding names_replaceInPlaceOrAppend by auto
    then show ?thesis by simp
  qed
  have roa: "?ps = map (\<lambda>p. if Name p = Name c then c else p) ps @ ?new"
    by (rule replaceInPlaceOrAppend_distinct [OF Cons.prems(1)])
  have f: "filter (\<lambda>x. Name x \<notin> Name ` set ?ps) cs
             = filter (\<lambda>x. Name x \<notin> Name ` set ps) cs"
    using nc by (intro filter_cong) (auto simp: names image_iff)
  have m: "map (\<lambda>p. case find (\<lambda>x. Name x = Name p) cs of Some c \<Rightarrow> c | None \<Rightarrow> p) ?ps
             = map (\<lambda>p. case find (\<lambda>x. Name x = Name p) (c # cs) of
                          Some c \<Rightarrow> c | None \<Rightarrow> p) ps @ ?new"
    by (subst roa) (auto simp: fc)
  have n: "filter (\<lambda>x. Name x \<notin> Name ` set ps) (c # cs)
             = ?new @ filter (\<lambda>x. Name x \<notin> Name ` set ps) cs"
    by simp
  have "fold replaceInPlaceOrAppend (c # cs) ps = fold replaceInPlaceOrAppend cs ?ps"
    by simp
  also have "\<dots> =
      map (\<lambda>p. case find (\<lambda>c. Name c = Name p) cs of Some c \<Rightarrow> c | None \<Rightarrow> p) ?ps
        @ filter (\<lambda>c. Name c \<notin> Name ` set ?ps) cs"
    by (rule Cons.IH [OF d dc])
  also have "\<dots> =
      map (\<lambda>p. case find (\<lambda>x. Name x = Name p) (c # cs) of Some c \<Rightarrow> c | None \<Rightarrow> p) ps
        @ filter (\<lambda>x. Name x \<notin> Name ` set ps) (c # cs)"
    by (simp only: f m n append_assoc)
  finally show ?case .
qed

lemma merge_both_Terraform:
  assumes "Terraform config = Some child" and "Terraform included = Some parent"
  shows "\<exists>merged.
           mergeConfigWithIncludedConfig config (Some included)
             = (fst (mergeExtraArgs (ExtraArgs child) (ExtraArgs parent)), Inr merged)
         \<and> Terraform merged =
             Some \<lparr>ExtraArgs = snd (mergeExtraArgs (ExtraArgs child) (ExtraArgs parent)),
                   Source = (if Source child = '''' then Source parent else Source child)\<rparr>"
  using assms by (simp add: mergeConfigWithIncludedConfig_def Let_def split_beta)

text \<open>
  C1. When the child and the included parent both have a \<open>Terraform\<close> block, the merged
  list of extra arguments is the parent's list into which each group of the child, in the
  child's order, has been put by the step "replace in place the group of the same name,
  or append". The names at the parent's positions are the parent's names, in the parent's
  order, and the names of the whole result are the parent's names followed by the new
  names of the child, in the order in which the child first declares them. When no name
  occurs twice in either list, the result is the parent's list with each group replaced by
  the child's group of the same name if there is one, followed by the child's groups whose
  names the parent does not have, in the child's order.
\<close>

theorem keyed_list_merge:
  assumes "Terraform config = Some child" and "Terraform included = Some parent"
  shows "\<exists>merged mergedTerraform.
           snd (mergeConfigWithIncludedConfig config (Some included)) = Inr merged
         \<and> Terraform merged = Some mergedTerraform
         \<and> ExtraArgs mergedTerraform
             = fold replaceInPlaceOrAppend (ExtraArgs child) (ExtraArgs parent)
         \<and> take (length (ExtraArgs parent)) (map Name (ExtraArgs mergedTerraform))
             = map Name (ExtraArgs parent)
         \<and> map Name (ExtraArgs mergedTerraform)
             = fold (\<lambda>n ns. if n \<in> set ns then ns else ns @ [n])
                 (map Name (ExtraArgs child)) (map Name (ExtraArgs parent))
         \<and> (distinct (map Name (ExtraArgs parent)) \<and> distinct (map Name (ExtraArgs child)) \<longrightarrow>
              ExtraArgs mergedTerraform
                = map (\<lambda>p. case find (\<lambda>c. Name c = Name p) (ExtraArgs child) of
                             Some c \<Rightarrow> c | None \<Rightarrow> p) (ExtraArgs parent)
                  @ filter (\<lambda>c. Name c \<notin> Name ` set (ExtraArgs parent)) (ExtraArgs child))"
proof -
  from merge_both_Terraform [OF assms] obtain merged where
    m: "snd (mergeConfigWithIncludedConfig config (Some included)) = Inr merged"
       "Terraform merged =
          Some \<lparr>ExtraArgs = snd (mergeExtraArgs (ExtraArgs child) (ExtraArgs parent)),
                Source = (if Source child = '''' then Source parent else Source child)\<rparr>"
    by auto
  let ?t = "\<lparr>ExtraArgs = snd (mergeExtraArgs (ExtraArgs child) (ExtraArgs parent)),
              Source = (if Source child = '''' then Source parent else Source child)\<rparr>"
  have e: "ExtraArgs ?t = fold replaceInPlaceOrAppend (ExtraArgs child) (ExtraArgs parent)"
    by (simp add: mergeExtraArgs_fold)
  have "take (length (ExtraArgs parent)) (map Name (ExtraArgs ?t)) = map Name (ExtraArgs parent)"
    unfolding e by (rule names_fold_take)
  moreover have "map Name (ExtraArgs ?t)
      = fold (\<lambda>n ns. if n \<in> set ns then ns else ns @ [n])
          (map Name (ExtraArgs child)) (map Name (ExtraArgs parent))"
    unfolding e by (rule names_fold)
  moreover have "distinct (map Name (ExtraArgs parent)) \<and> distinct (map Name (ExtraArgs child)) \<longrightarrow>
      ExtraArgs ?t
        = map (\<lambda>p. case find (\<lambda>c. Name c = Name p) (ExtraArgs child) of
                     Some c \<Rightarrow> c | None \<Rightarrow> p) (ExtraArgs parent)
          @ filter (\<lambda>c. Name c \<notin> Name ` set (ExtraArgs parent)) (ExtraArgs child)"
    unfolding e by (simp add: fold_replaceInPlaceOrAppend_distinct)
  ultimately show ?thesis
    using m e by blast
qed

theorem keyed_list_merge_witness:
  "Terraform childConfig = Some childTerraform
   \<and> Terraform parentConfig = Some parentTerraform
   \<and> distinct (map Name (ExtraArgs parentTerraform))
   \<and> distinct (map Name (ExtraArgs (childTerraform\<lparr>ExtraArgs := [onlyChild, commonApply]\<rparr>)))
   \<and> (\<exists>merged mergedTerraform.
         snd (mergeConfigWithIncludedConfig childConfig (Some parentConfig)) = Inr merged
       \<and> Terraform merged = Some mergedTerraform
       \<and> ExtraArgs mergedTerraform = [commonApply, onlyParent])
   \<and> (\<exists>merged mergedTerraform.
         snd (mergeConfigWithIncludedConfig
                (childConfig\<lparr>Terraform :=
                   Some (childTerraform\<lparr>ExtraArgs := [onlyChild, commonApply]\<rparr>)\<rparr>)
                (Some parentConfig)) = Inr merged
       \<and> Terraform merged = Some mergedTerraform
       \<and> ExtraArgs mergedTerraform = [commonApply, onlyParent, onlyChild])"
proof -
  have c: "Terraform childConfig = Some childTerraform"
    and p: "Terraform parentConfig = Some parentTerraform"
    and c': "Terraform (childConfig\<lparr>Terraform :=
                   Some (childTerraform\<lparr>ExtraArgs := [onlyChild, commonApply]\<rparr>)\<rparr>)
              = Some (childTerraform\<lparr>ExtraArgs := [onlyChild, commonApply]\<rparr>)"
    by (simp_all add: childConfig_def parentConfig_def)
  have d: "distinct (map Name (ExtraArgs parentTerraform))"
    and d1: "distinct (map Name (ExtraArgs childTerraform))"
    and d2: "distinct (map Name (ExtraArgs (childTerraform\<lparr>ExtraArgs := [onlyChild, commonApply]\<rparr>)))"
    by (simp_all add: example_defs)
  have r1: "map (\<lambda>p. case find (\<lambda>c. Name c = Name p) (ExtraArgs childTerraform) of
                       Some c \<Rightarrow> c | None \<Rightarrow> p) (ExtraArgs parentTerraform)
              @ filter (\<lambda>c. Name c \<notin> Name ` set (ExtraArgs parentTerraform))
                  (ExtraArgs childTerraform)
            = [commonApply, onlyParent]"
    by (simp add: example_defs)
  have r2: "map (\<lambda>p. case find (\<lambda>c. Name c = Name p)
                         (ExtraArgs (childTerraform\<lparr>ExtraArgs := [onlyChild, commonApply]\<rparr>)) of
                       Some c \<Rightarrow> c | None \<Rightarrow> p) (ExtraArgs parentTerraform)
              @ filter (\<lambda>c. Name c \<notin> Name ` set (ExtraArgs parentTerraform))
                  (ExtraArgs (childTerraform\<lparr>ExtraArgs := [onlyChild, commonApply]\<rparr>))
            = [commonApply, onlyParent, onlyChild]"
    by (simp add: example_defs)
  from keyed_list_merge [OF c p] d d1 r1 have 1:
    "\<exists>merged mergedTerraform.
         snd (mergeConfigWithIncludedConfig childConfig (Some parentConfig)) = Inr merged
       \<and> Terraform merged = Some mergedTerraform
       \<and> ExtraArgs mergedTerraform = [commonApply, onlyParent]"
    by metis
  from keyed_list_merge [OF c' p] d d2 r2 have 2:
    "\<exists>merged mergedTerraform.
         snd (mergeConfigWithIncludedConfig
                (childConfig\<lparr>Terraform :=
                   Some (childTerraform\<lparr>ExtraArgs := [onlyChild, commonApply]\<rparr>)\<rparr>)
                (Some parentConfig)) = Inr merged
       \<and> Terraform merged = Some mergedTerraform
       \<and> ExtraArgs mergedTerraform = [commonApply, onlyParent, onlyChild]"
    by metis
  from c p d d2 1 2 show ?thesis by blast
qed

text \<open>
  C2. When the child and the included parent both have a \<open>Terraform\<close> block, the merged
  \<open>Source\<close> is the parent's when the child's is the empty string, and the child's
  otherwise.
\<close>

theorem merged_Source:
  assumes "Terraform config = Some child" and "Terraform included = Some parent"
  shows "\<exists>merged mergedTerraform.
           snd (mergeConfigWithIncludedConfig config (Some included)) = Inr merged
         \<and> Terraform merged = Some mergedTerraform
         \<and> Source mergedTerraform
             = (if Source child = '''' then Source parent else Source child)"
  using merge_both_Terraform [OF assms] by auto

theorem merged_Source_witness:
  "Terraform childConfig = Some childTerraform
   \<and> Terraform parentConfig = Some parentTerraform
   \<and> Source childTerraform = ''''
   \<and> (\<exists>merged mergedTerraform.
         snd (mergeConfigWithIncludedConfig childConfig (Some parentConfig)) = Inr merged
       \<and> Terraform merged = Some mergedTerraform
       \<and> Source mergedTerraform = ''git::https://x'')
   \<and> (\<exists>merged mergedTerraform.
         snd (mergeConfigWithIncludedConfig
                (childConfig\<lparr>Terraform := Some (childTerraform\<lparr>Source := ''./local''\<rparr>)\<rparr>)
                (Some parentConfig)) = Inr merged
       \<and> Terraform merged = Some mergedTerraform
       \<and> Source mergedTerraform = ''./local'')"
proof -
  have c: "Terraform childConfig = Some childTerraform"
    and p: "Terraform parentConfig = Some parentTerraform"
    and c': "Terraform (childConfig\<lparr>Terraform := Some (childTerraform\<lparr>Source := ''./local''\<rparr>)\<rparr>)
              = Some (childTerraform\<lparr>Source := ''./local''\<rparr>)"
    by (simp_all add: childConfig_def parentConfig_def)
  have s: "Source childTerraform = ''''" and sp: "Source parentTerraform = ''git::https://x''"
    by (simp_all add: childTerraform_def parentTerraform_def)
  from merged_Source [OF c p] s sp have 1:
    "\<exists>merged mergedTerraform.
         snd (mergeConfigWithIncludedConfig childConfig (Some parentConfig)) = Inr merged
       \<and> Terraform merged = Some mergedTerraform
       \<and> Source mergedTerraform = ''git::https://x''"
    by simp
  from merged_Source [OF c' p] have 2:
    "\<exists>merged mergedTerraform.
         snd (mergeConfigWithIncludedConfig
                (childConfig\<lparr>Terraform := Some (childTerraform\<lparr>Source := ''./local''\<rparr>)\<rparr>)
                (Some parentConfig)) = Inr merged
       \<and> Terraform merged = Some mergedTerraform
       \<and> Source mergedTerraform = ''./local''"
    by simp
  from c p s 1 2 show ?thesis by blast
qed

text \<open>
  C4. Merging with no included configuration returns the child's configuration as it is,
  and logs nothing.
\<close>

theorem merge_nil_identity:
  "mergeConfigWithIncludedConfig config None = ([], Inr config)"
  by (simp add: mergeConfigWithIncludedConfig_def)

subsection \<open>Format detection and discovery\<close>

lemma HasSuffix_iff: "HasSuffix s suffix \<longleftrightarrow> (\<exists>prefix. s = prefix @ suffix)"
proof
  assume "HasSuffix s suffix"
  then have "s = take (length s - length suffix) s @ suffix"
    by (metis HasSuffix_def append_take_drop_id)
  then show "\<exists>prefix. s = prefix @ suffix" ..
next
  assume "\<exists>prefix. s = prefix @ suffix"
  then show "HasSuffix s suffix"
    by (auto simp: HasSuffix_def)
qed

lemma path_baseName:
  "path = rev (dropWhile (\<lambda>c. c \<noteq> CHR ''/'') (rev path)) @ baseName path"
proof -
  have "rev path = takeWhile (\<lambda>c. c \<noteq> CHR ''/'') (rev path)
                     @ dropWhile (\<lambda>c. c \<noteq> CHR ''/'') (rev path)"
    by simp
  then have "rev (rev path) = rev (dropWhile (\<lambda>c. c \<noteq> CHR ''/'') (rev path))
                                @ rev (takeWhile (\<lambda>c. c \<noteq> CHR ''/'') (rev path))"
    by (metis rev_append)
  then show ?thesis
    by (simp add: baseName_def)
qed

text \<open>
  C6, as the code has it. A path is in the legacy format exactly when it ends with
  \<open>.terragrunt\<close>; the test reads the path only. Every path whose name is exactly
  \<open>.terragrunt\<close> is therefore in the legacy format, and so is any other path with this
  ending.
\<close>

theorem legacy_format_by_suffix:
  "(isOldTerragruntConfig path \<longleftrightarrow> (\<exists>prefix. path = prefix @ ''.terragrunt''))
   \<and> (baseName path = ''.terragrunt'' \<longrightarrow> isOldTerragruntConfig path)"
proof -
  have 1: "isOldTerragruntConfig path \<longleftrightarrow> (\<exists>prefix. path = prefix @ ''.terragrunt'')"
    by (simp add: isOldTerragruntConfig_def OldTerragruntConfigPath_def HasSuffix_iff)
  have "baseName path = ''.terragrunt'' \<longrightarrow> (\<exists>prefix. path = prefix @ ''.terragrunt'')"
    using path_baseName [of path] by metis
  with 1 show ?thesis by blast
qed

theorem legacy_format_by_suffix_witness:
  "baseName ''/l/g/.terragrunt'' = ''.terragrunt''
   \<and> isOldTerragruntConfig ''/l/g/.terragrunt''
   \<and> \<not> isOldTerragruntConfig ''/l/g/terraform.tfvars''"
proof -
  have b: "baseName ''/l/g/.terragrunt'' = ''.terragrunt''"
    by (simp add: baseName_def)
  have "\<not> (\<exists>prefix. ''/l/g/terraform.tfvars'' = prefix @ ''.terragrunt'')"
    by (auto simp: append_eq_Cons_conv Cons_eq_append_conv)
  with b legacy_format_by_suffix [of "''/l/g/.terragrunt''"]
    legacy_format_by_suffix [of "''/l/g/terraform.tfvars''"]
  show ?thesis by blast
qed

text \<open>
  The claim C6 as stated fails: \<open>/l/backup.terragrunt\<close> is classified as legacy, and its
  name is \<open>backup.terragrunt\<close>, not \<open>.terragrunt\<close>.
\<close>

theorem legacy_format_exact_name_counterexample:
  "isOldTerragruntConfig ''/l/backup.terragrunt''
   \<and> baseName ''/l/backup.terragrunt'' = ''backup.terragrunt''
   \<and> baseName ''/l/backup.terragrunt'' \<noteq> ''.terragrunt''"
  by (simp add: isOldTerragruntConfig_def HasSuffix_def OldTerragruntConfigPath_def
        baseName_def)

text \<open>
  C9. The default configuration path of a directory is the directory joined with
  \<open>.terragrunt\<close> when that file exists, and the directory joined with
  \<open>terraform.tfvars\<close> otherwise. Only the existence of the legacy file is asked, so
  with both files present the legacy file is the answer.
\<close>

theorem default_config_path:
  "DefaultConfigPath env workingDir =
     ([CallFileExists (JoinPath env workingDir ''.terragrunt'')],
      if FileExists env (JoinPath env workingDir ''.terragrunt'')
      then JoinPath env workingDir ''.terragrunt''
      else JoinPath env workingDir ''terraform.tfvars'')"
  by (simp add: DefaultConfigPath_def OldTerragruntConfigPath_def
        DefaultTerragruntConfigPath_def Let_def)

theorem default_config_path_witness:
  "FileExists exampleEnv ''/l/g/.terragrunt''
   \<and> FileExists exampleEnv ''/l/g/terraform.tfvars''
   \<and> snd (DefaultConfigPath exampleEnv ''/l/g'') = ''/l/g/.terragrunt''
   \<and> snd (DefaultConfigPath exampleEnv ''/l/a'') = ''/l/a/terraform.tfvars''"
  using default_config_path [of exampleEnv "''/l/g''"]
    default_config_path [of exampleEnv "''/l/a''"]
  by (simp add: exampleEnv_def exampleRead_def)

text \<open>
  C10. For a path that \<^verbatim>\<open>FileExists\<close> does not find, \<^verbatim>\<open>IsTerragruntConfigFile\<close> returns
  \<^verbatim>\<open>(false, nil)\<close> and reads nothing. So, in the discovery, a directory with neither
  file adds no path and no error: the walk goes on with the entries that follow, with the
  same list.
\<close>

theorem missing_file_is_not_a_config:
  "(\<not> FileExists env path \<longrightarrow>
      IsTerragruntConfigFile env path = ([CallFileExists path], Inr False))
   \<and> (\<not> FileExists env (JoinPath env dir ''.terragrunt'') \<and>
      \<not> FileExists env (JoinPath env dir ''terraform.tfvars'') \<longrightarrow>
        walkLoop env configFiles ((dir, True, None) # entries) =
          emit [CallFileExists (JoinPath env dir ''.terragrunt''),
                CallFileExists (JoinPath env dir ''terraform.tfvars'')]
            (walkLoop env configFiles entries))"
  by (simp add: IsTerragruntConfigFile_def walkFn_def DefaultConfigPath_def
        OldTerragruntConfigPath_def DefaultTerragruntConfigPath_def Let_def)

theorem missing_file_is_not_a_config_witness:
  "\<not> FileExists exampleEnv ''/l/z/.terragrunt''
   \<and> \<not> FileExists exampleEnv ''/l/z/terraform.tfvars''
   \<and> IsTerragruntConfigFile exampleEnv ''/l/z/terraform.tfvars''
       = ([CallFileExists ''/l/z/terraform.tfvars''], Inr False)
   \<and> walkLoop exampleEnv [] [(''/l/z'', True, None), (''/l/a'', True, None)]
       = ([CallFileExists ''/l/z/.terragrunt'', CallFileExists ''/l/z/terraform.tfvars'',
           CallFileExists ''/l/a/.terragrunt'', CallFileExists ''/l/a/terraform.tfvars'',
           CallReadFileAsString ''/l/a/terraform.tfvars''],
          [''/l/a/terraform.tfvars''], None)"
proof -
  have z: "\<not> FileExists exampleEnv ''/l/z/.terragrunt''"
          "\<not> FileExists exampleEnv ''/l/z/terraform.tfvars''"
    by (simp_all add: exampleEnv_def exampleRead_def)
  have j: "JoinPath exampleEnv ''/l/z'' ''.terragrunt'' = ''/l/z/.terragrunt''"
          "JoinPath exampleEnv ''/l/z'' ''terraform.tfvars'' = ''/l/z/terraform.tfvars''"
    by (simp_all add: exampleEnv_def)
  have a: "walkLoop exampleEnv [] [(''/l/a'', True, None)]
             = ([CallFileExists ''/l/a/.terragrunt'', CallFileExists ''/l/a/terraform.tfvars'',
                 CallReadFileAsString ''/l/a/terraform.tfvars''],
                [''/l/a/terraform.tfvars''], None)"
    by (simp add: walkFn_def DefaultConfigPath_def IsTerragruntConfigFile_def
          isNewTerragruntConfig_def containsTerragruntBlock_def isOldTerragruntConfig_def
          HasSuffix_def OldTerragruntConfigPath_def DefaultTerragruntConfigPath_def
          exampleEnv_def exampleRead_def exampleDecode_def)
  from missing_file_is_not_a_config
         [of exampleEnv "''/l/z/terraform.tfvars''" "''/l/z''" "[]" "[(''/l/a'', True, None)]"]
       z j a
  show ?thesis by simp
qed

subsection \<open>The parse pipeline\<close>

lemma parseConfigString_decoded:
  assumes "ResolveTerragruntConfigString env configString include opts = Inr resolved"
      and "parseConfigStringAsTerragruntConfigFile env resolved configPath = Inr (Some file)"
  shows "parseConfigString env configString opts include configPath =
           emit [CallResolveString configString include]
             (case convertToTerragruntConfig env file opts of
                (evs, Inl err) \<Rightarrow> (evs, Inl err)
              | (evs, Inr config) \<Rightarrow>
                  emit evs
                    (if include \<noteq> None \<and> Include file \<noteq> None then
                       ([], Inl (TooManyLevelsOfInheritance (TerragruntConfigPath opts)
                                   (Path (the include)) (Path (the (Include file)))))
                     else
                       (case parseIncludedConfig env (Include file) opts of
                          (evs', Inl err) \<Rightarrow> (evs', Inl err)
                        | (evs', Inr includedConfig) \<Rightarrow>
                            emit evs' (mergeConfigWithIncludedConfig config includedConfig))))"
  by (subst parseConfigString.simps) (simp only: assms sum.case option.case)

lemma ReadTerragruntConfig_read:
  assumes "ReadFileAsString env (TerragruntConfigPath opts) = Inr configString"
  shows "ReadTerragruntConfig env opts =
           emit (PrintfReadingConfig (TerragruntConfigPath opts)
                   # (if isOldTerragruntConfig (TerragruntConfigPath opts)
                      then [PrintfDeprecatedFormat (TerragruntConfigPath opts)] else [])
                   @ [CallReadFileAsString (TerragruntConfigPath opts)])
             (parseConfigString env configString opts None (TerragruntConfigPath opts))"
  by (simp add: ReadTerragruntConfig_def ParseConfigFile.simps assms emit_def)

text \<open>
  C3, as the code has it. A parse with an include context, of a file that decodes to a
  configuration with an include of its own, converts the decoded configuration first.
  When the conversion succeeds, the parse fails with \<open>TooManyLevelsOfInheritance\<close>, which
  carries the path of the options, the path of the include context and the path of the
  file's own include. When the conversion fails (the remote state does not validate), the
  parse fails with the error of the conversion. It returns no configuration in either
  case, and it does nothing for the second include.
\<close>

theorem too_many_levels_of_inheritance:
  assumes "ResolveTerragruntConfigString env configString (Some first) opts = Inr resolved"
      and "parseConfigStringAsTerragruntConfigFile env resolved configPath = Inr (Some file)"
      and "Include file = Some second"
  shows "(snd (convertToTerragruntConfig env file opts) = Inr config \<longrightarrow>
            parseConfigString env configString opts (Some first) configPath =
              (CallResolveString configString (Some first)
                 # fst (convertToTerragruntConfig env file opts),
               Inl (TooManyLevelsOfInheritance (TerragruntConfigPath opts)
                      (Path first) (Path second))))
       \<and> (snd (convertToTerragruntConfig env file opts) = Inl err \<longrightarrow>
            parseConfigString env configString opts (Some first) configPath =
              (CallResolveString configString (Some first)
                 # fst (convertToTerragruntConfig env file opts), Inl err))
       \<and> isl (snd (parseConfigString env configString opts (Some first) configPath))"
  unfolding parseConfigString_decoded [OF assms(1,2)]
  by (cases "convertToTerragruntConfig env file opts")
     (auto simp: assms(3) split: sum.splits)

theorem too_many_levels_of_inheritance_witness:
  "ResolveTerragruntConfigString exampleEnv ''chained'' (Some \<lparr>Path = ''../p.tfvars''\<rparr>)
       \<lparr>TerragruntConfigPath = ''/l/d/terraform.tfvars''\<rparr> = Inr ''chained''
   \<and> parseConfigStringAsTerragruntConfigFile exampleEnv ''chained'' ''/l/d/../p.tfvars''
       = Inr (Some chainedFile)
   \<and> Include chainedFile = Some \<lparr>Path = ''../root.tfvars''\<rparr>
   \<and> convertToTerragruntConfig exampleEnv chainedFile
         \<lparr>TerragruntConfigPath = ''/l/d/terraform.tfvars''\<rparr>
       = ([], Inr \<lparr>Terraform = None, RemoteState = Some ''s3'', Dependencies = None\<rparr>)
   \<and> parseConfigString exampleEnv ''chained'' \<lparr>TerragruntConfigPath = ''/l/d/terraform.tfvars''\<rparr>
         (Some \<lparr>Path = ''../p.tfvars''\<rparr>) ''/l/d/../p.tfvars''
       = ([CallResolveString ''chained'' (Some \<lparr>Path = ''../p.tfvars''\<rparr>)],
          Inl (TooManyLevelsOfInheritance ''/l/d/terraform.tfvars'' ''../p.tfvars''
                 ''../root.tfvars''))
   \<and> ReadTerragruntConfig exampleEnv \<lparr>TerragruntConfigPath = ''/l/d/terraform.tfvars''\<rparr>
       = ([PrintfReadingConfig ''/l/d/terraform.tfvars'',
           CallReadFileAsString ''/l/d/terraform.tfvars'',
           CallResolveString ''child'' None,
           CallResolveString ''../p.tfvars'' None,
           CallReadFileAsString ''/l/d/../p.tfvars'',
           CallResolveString ''chained'' (Some \<lparr>Path = ''../p.tfvars''\<rparr>)],
          Inl (TooManyLevelsOfInheritance ''/l/d/terraform.tfvars'' ''../p.tfvars''
                 ''../root.tfvars''))"
proof -
  let ?opts = "\<lparr>TerragruntConfigPath = ''/l/d/terraform.tfvars''\<rparr>"
  have r: "ResolveTerragruntConfigString exampleEnv ''chained''
             (Some \<lparr>Path = ''../p.tfvars''\<rparr>) ?opts = Inr ''chained''"
    by (simp add: exampleEnv_def)
  have d: "parseConfigStringAsTerragruntConfigFile exampleEnv ''chained'' ''/l/d/../p.tfvars''
             = Inr (Some chainedFile)"
    by (simp add: parseConfigStringAsTerragruntConfigFile_def isOldTerragruntConfig_def
          HasSuffix_def OldTerragruntConfigPath_def exampleEnv_def exampleDecode_def)
  have i: "Include chainedFile = Some \<lparr>Path = ''../root.tfvars''\<rparr>"
    by (simp add: chainedFile_def)
  have c: "convertToTerragruntConfig exampleEnv chainedFile ?opts
             = ([], Inr \<lparr>Terraform = None, RemoteState = Some ''s3'', Dependencies = None\<rparr>)"
    by (simp add: convertToTerragruntConfig_def chainedFile_def exampleEnv_def)
  have e: "ReadTerragruntConfig exampleEnv ?opts
       = ([PrintfReadingConfig ''/l/d/terraform.tfvars'',
           CallReadFileAsString ''/l/d/terraform.tfvars'',
           CallResolveString ''child'' None,
           CallResolveString ''../p.tfvars'' None,
           CallReadFileAsString ''/l/d/../p.tfvars'',
           CallResolveString ''chained'' (Some \<lparr>Path = ''../p.tfvars''\<rparr>)],
          Inl (TooManyLevelsOfInheritance ''/l/d/terraform.tfvars'' ''../p.tfvars''
                 ''../root.tfvars''))"
    by (simp add: example_defs pipeline_defs)
  from too_many_levels_of_inheritance [OF r d i,
         where config = "\<lparr>Terraform = None, RemoteState = Some ''s3'', Dependencies = None\<rparr>"]
       r d i c e
  show ?thesis by simp
qed

text \<open>
  The claim C3 as stated fails when the remote state of the parent does not validate: the
  child at \<open>/l/e\<close> includes a parent that has an include of its own and an empty backend,
  and the parse of the parent, with its include context, returns the error of the
  validation and not \<open>TooManyLevelsOfInheritance\<close>.
\<close>

theorem too_many_levels_of_inheritance_counterexample:
  "parseConfigStringAsTerragruntConfigFile exampleEnv ''invalid-chained'' ''/l/e/../p.tfvars''
       = Inr (Some invalidChainedFile)
   \<and> Include invalidChainedFile = Some \<lparr>Path = ''../root.tfvars''\<rparr>
   \<and> parseConfigString exampleEnv ''invalid-chained''
         \<lparr>TerragruntConfigPath = ''/l/e/terraform.tfvars''\<rparr>
         (Some \<lparr>Path = ''../p.tfvars''\<rparr>) ''/l/e/../p.tfvars''
       = ([CallResolveString ''invalid-chained'' (Some \<lparr>Path = ''../p.tfvars''\<rparr>)],
          Inl (ExternalError ''the backend is missing''))
   \<and> snd (ReadTerragruntConfig exampleEnv \<lparr>TerragruntConfigPath = ''/l/e/terraform.tfvars''\<rparr>)
       = Inl (ExternalError ''the backend is missing'')
   \<and> snd (ReadTerragruntConfig exampleEnv \<lparr>TerragruntConfigPath = ''/l/e/terraform.tfvars''\<rparr>)
       \<noteq> Inl (TooManyLevelsOfInheritance ''/l/e/terraform.tfvars'' ''../p.tfvars''
                ''../root.tfvars'')"
  by (simp add: example_defs pipeline_defs)

text \<open>
  C5. An include whose path is the empty string makes the resolution of the include fail
  with \<open>IncludedConfigMissingPath\<close>, which carries the path of the options, and the
  resolution makes no call: no interpolation, no read. Through the entry point, where the
  path of the options is the file that is read, the only calls are those for the including
  file itself.
\<close>

theorem include_with_empty_path:
  "parseIncludedConfig env (Some \<lparr>Path = ''''\<rparr>) opts =
     ([], Inl (IncludedConfigMissingPath (TerragruntConfigPath opts)))
   \<and> (ReadFileAsString env (TerragruntConfigPath opts) = Inr configString \<and>
      ResolveTerragruntConfigString env configString None opts = Inr resolved \<and>
      parseConfigStringAsTerragruntConfigFile env resolved (TerragruntConfigPath opts)
        = Inr (Some file) \<and>
      Include file = Some \<lparr>Path = ''''\<rparr> \<and>
      snd (convertToTerragruntConfig env file opts) = Inr config \<longrightarrow>
        ReadTerragruntConfig env opts =
          (PrintfReadingConfig (TerragruntConfigPath opts)
             # (if isOldTerragruntConfig (TerragruntConfigPath opts)
                then [PrintfDeprecatedFormat (TerragruntConfigPath opts)] else [])
             @ [CallReadFileAsString (TerragruntConfigPath opts),
                CallResolveString configString None]
             @ fst (convertToTerragruntConfig env file opts),
           Inl (IncludedConfigMissingPath (TerragruntConfigPath opts))))"
proof -
  have 1: "parseIncludedConfig env (Some \<lparr>Path = ''''\<rparr>) opts =
             ([], Inl (IncludedConfigMissingPath (TerragruntConfigPath opts)))"
    by (simp add: parseIncludedConfig.simps)
  have "ReadTerragruntConfig env opts =
          (PrintfReadingConfig (TerragruntConfigPath opts)
             # (if isOldTerragruntConfig (TerragruntConfigPath opts)
                then [PrintfDeprecatedFormat (TerragruntConfigPath opts)] else [])
             @ [CallReadFileAsString (TerragruntConfigPath opts),
                CallResolveString configString None]
             @ fst (convertToTerragruntConfig env file opts),
           Inl (IncludedConfigMissingPath (TerragruntConfigPath opts)))"
    if r: "ReadFileAsString env (TerragruntConfigPath opts) = Inr configString"
      and i: "ResolveTerragruntConfigString env configString None opts = Inr resolved"
      and d: "parseConfigStringAsTerragruntConfigFile env resolved (TerragruntConfigPath opts)
                = Inr (Some file)"
      and e: "Include file = Some \<lparr>Path = ''''\<rparr>"
      and c: "snd (convertToTerragruntConfig env file opts) = Inr config"
    unfolding ReadTerragruntConfig_read [OF r] parseConfigString_decoded [OF i d]
    using c by (cases "convertToTerragruntConfig env file opts") (simp add: e 1)
  with 1 show ?thesis by blast
qed

theorem include_with_empty_path_witness:
  "ReadFileAsString exampleEnv ''/l/c/terraform.tfvars'' = Inr ''empty-include''
   \<and> parseConfigStringAsTerragruntConfigFile exampleEnv ''empty-include''
         ''/l/c/terraform.tfvars'' = Inr (Some emptyIncludeFile)
   \<and> Include emptyIncludeFile = Some \<lparr>Path = ''''\<rparr>
   \<and> ReadTerragruntConfig exampleEnv \<lparr>TerragruntConfigPath = ''/l/c/terraform.tfvars''\<rparr>
       = ([PrintfReadingConfig ''/l/c/terraform.tfvars'',
           CallReadFileAsString ''/l/c/terraform.tfvars'',
           CallResolveString ''empty-include'' None],
          Inl (IncludedConfigMissingPath ''/l/c/terraform.tfvars''))"
proof -
  let ?opts = "\<lparr>TerragruntConfigPath = ''/l/c/terraform.tfvars''\<rparr>"
  have r: "ReadFileAsString exampleEnv (TerragruntConfigPath ?opts) = Inr ''empty-include''"
    by (simp add: exampleEnv_def exampleRead_def)
  have i: "ResolveTerragruntConfigString exampleEnv ''empty-include'' None ?opts
             = Inr ''empty-include''"
    by (simp add: exampleEnv_def)
  have d: "parseConfigStringAsTerragruntConfigFile exampleEnv ''empty-include''
             (TerragruntConfigPath ?opts) = Inr (Some emptyIncludeFile)"
    by (simp add: parseConfigStringAsTerragruntConfigFile_def isOldTerragruntConfig_def
          HasSuffix_def OldTerragruntConfigPath_def exampleEnv_def exampleDecode_def)
  have e: "Include emptyIncludeFile = Some \<lparr>Path = ''''\<rparr>"
    by (simp add: emptyIncludeFile_def)
  have c: "convertToTerragruntConfig exampleEnv emptyIncludeFile ?opts = ([], Inr childConfig)"
    by (simp add: convertToTerragruntConfig_def emptyIncludeFile_def childFile_def
          childConfig_def)
  have o: "\<not> isOldTerragruntConfig ''/l/c/terraform.tfvars''"
    by (simp add: isOldTerragruntConfig_def HasSuffix_def OldTerragruntConfigPath_def)
  from include_with_empty_path
         [of exampleEnv ?opts "''empty-include''" "''empty-include''" emptyIncludeFile childConfig]
       r i d e c o
  show ?thesis by simp
qed

text \<open>
  C8. For a path that is not in the legacy format, when the interpolated contents decode
  without error and hold no \<open>terragrunt\<close> block, the decoder returns \<^verbatim>\<open>(nil, nil)\<close>, and
  the parse fails with \<open>CouldNotResolveTerragruntConfigInFile\<close>, which carries the path of
  the file; no configuration is returned and nothing further is called.
\<close>

theorem missing_terragrunt_block:
  assumes "\<not> isOldTerragruntConfig configPath"
      and "ResolveTerragruntConfigString env configString include opts = Inr resolved"
      and "DecodeTfvarsFile env resolved = Inr tfvarsConfig"
      and "Terragrunt tfvarsConfig = None"
  shows "parseConfigStringAsTerragruntConfigFile env resolved configPath = Inr None
       \<and> parseConfigString env configString opts include configPath =
           ([CallResolveString configString include],
            Inl (CouldNotResolveTerragruntConfigInFile configPath))
       \<and> (ReadFileAsString env configPath = Inr configString \<longrightarrow>
            ParseConfigFile env configPath opts include =
              ([CallReadFileAsString configPath, CallResolveString configString include],
               Inl (CouldNotResolveTerragruntConfigInFile configPath)))"
proof -
  have d: "parseConfigStringAsTerragruntConfigFile env resolved configPath = Inr None"
    using assms(1,3,4) by (simp add: parseConfigStringAsTerragruntConfigFile_def)
  have p: "parseConfigString env configString opts include configPath =
             ([CallResolveString configString include],
              Inl (CouldNotResolveTerragruntConfigInFile configPath))"
    by (subst parseConfigString.simps) (simp add: assms(2) d)
  have "ParseConfigFile env configPath opts include =
          ([CallReadFileAsString configPath, CallResolveString configString include],
           Inl (CouldNotResolveTerragruntConfigInFile configPath))"
    if "ReadFileAsString env configPath = Inr configString"
    by (subst ParseConfigFile.simps) (simp add: that p assms(1))
  with d p show ?thesis by blast
qed

theorem missing_terragrunt_block_witness:
  "\<not> isOldTerragruntConfig ''/l/b/terraform.tfvars''
   \<and> ReadFileAsString exampleEnv ''/l/b/terraform.tfvars'' = Inr ''plain''
   \<and> DecodeTfvarsFile exampleEnv ''plain'' = Inr \<lparr>Terragrunt = None\<rparr>
   \<and> parseConfigStringAsTerragruntConfigFile exampleEnv ''plain'' ''/l/b/terraform.tfvars''
       = Inr None
   \<and> ParseConfigFile exampleEnv ''/l/b/terraform.tfvars''
         \<lparr>TerragruntConfigPath = ''/l/b/terraform.tfvars''\<rparr> None
       = ([CallReadFileAsString ''/l/b/terraform.tfvars'', CallResolveString ''plain'' None],
          Inl (CouldNotResolveTerragruntConfigInFile ''/l/b/terraform.tfvars''))"
proof -
  let ?opts = "\<lparr>TerragruntConfigPath = ''/l/b/terraform.tfvars''\<rparr>"
  have o: "\<not> isOldTerragruntConfig ''/l/b/terraform.tfvars''"
    by (simp add: isOldTerragruntConfig_def HasSuffix_def OldTerragruntConfigPath_def)
  have r: "ResolveTerragruntConfigString exampleEnv ''plain'' None ?opts = Inr ''plain''"
    by (simp add: exampleEnv_def)
  have d: "DecodeTfvarsFile exampleEnv ''plain''
             = Inr (\<lparr>Terragrunt = None\<rparr> :: (string, unit) tfvarsFileWithTerragruntConfig)"
    by (simp add: exampleEnv_def exampleDecode_def)
  have n: "Terragrunt (\<lparr>Terragrunt = None\<rparr> :: (string, unit) tfvarsFileWithTerragruntConfig)
             = None"
    by simp
  have f: "ReadFileAsString exampleEnv ''/l/b/terraform.tfvars'' = Inr ''plain''"
    by (simp add: exampleEnv_def exampleRead_def)
  from missing_terragrunt_block [OF o r d n] o f d show ?thesis
    by simp
qed

text \<open>
  C7, as the code has it. After the decoding and the check for a missing block, the
  steps of a parse come in this order: the conversion to the final configuration (with
  the defaults and the validation of the remote state), the check of the inheritance
  depth, the resolution of the parent, the merge. An error of the conversion is returned
  whatever the includes are; with a successful conversion, a second level of include is
  an error and the parent is not resolved; an error of the parent is returned before any
  merge; and the events of a successful parse are those of the conversion, then those of
  the parent, then those of the merge.
\<close>

theorem parseConfigString_step_order:
  assumes "ResolveTerragruntConfigString env configString include opts = Inr resolved"
      and "parseConfigStringAsTerragruntConfigFile env resolved configPath = Inr (Some file)"
  shows "(snd (convertToTerragruntConfig env file opts) = Inl err \<longrightarrow>
            parseConfigString env configString opts include configPath =
              (CallResolveString configString include
                 # fst (convertToTerragruntConfig env file opts), Inl err))
       \<and> (snd (convertToTerragruntConfig env file opts) = Inr config \<and>
          include = Some first \<and> Include file = Some second \<longrightarrow>
            parseConfigString env configString opts include configPath =
              (CallResolveString configString include
                 # fst (convertToTerragruntConfig env file opts),
               Inl (TooManyLevelsOfInheritance (TerragruntConfigPath opts)
                      (Path first) (Path second))))
       \<and> (snd (convertToTerragruntConfig env file opts) = Inr config \<and>
          (include = None \<or> Include file = None) \<and>
          snd (parseIncludedConfig env (Include file) opts) = Inl err' \<longrightarrow>
            parseConfigString env configString opts include configPath =
              (CallResolveString configString include
                 # fst (convertToTerragruntConfig env file opts)
                 @ fst (parseIncludedConfig env (Include file) opts), Inl err'))
       \<and> (snd (convertToTerragruntConfig env file opts) = Inr config \<and>
          (include = None \<or> Include file = None) \<and>
          snd (parseIncludedConfig env (Include file) opts) = Inr includedConfig \<longrightarrow>
            parseConfigString env configString opts include configPath =
              (CallResolveString configString include
                 # fst (convertToTerragruntConfig env file opts)
                 @ fst (parseIncludedConfig env (Include file) opts)
                 @ fst (mergeConfigWithIncludedConfig config includedConfig),
               snd (mergeConfigWithIncludedConfig config includedConfig)))"
  unfolding parseConfigString_decoded [OF assms]
  by (cases "convertToTerragruntConfig env file opts";
      cases "parseIncludedConfig env (Include file) opts")
     (auto simp: emit_def)

theorem parseConfigString_step_order_witness:
  "ResolveTerragruntConfigString exampleEnv ''child'' None exampleOptions = Inr ''child''
   \<and> parseConfigStringAsTerragruntConfigFile exampleEnv ''child'' ''/l/a/terraform.tfvars''
       = Inr (Some childFile)
   \<and> convertToTerragruntConfig exampleEnv childFile exampleOptions = ([], Inr childConfig)
   \<and> parseIncludedConfig exampleEnv (Include childFile) exampleOptions
       = ([CallResolveString ''../p.tfvars'' None, CallReadFileAsString ''/l/a/../p.tfvars'',
           CallResolveString ''parent'' (Some \<lparr>Path = ''../p.tfvars''\<rparr>)],
          Inr (Some parentConfig))
   \<and> parseConfigString exampleEnv ''child'' exampleOptions None ''/l/a/terraform.tfvars''
       = ([CallResolveString ''child'' None, CallResolveString ''../p.tfvars'' None,
           CallReadFileAsString ''/l/a/../p.tfvars'',
           CallResolveString ''parent'' (Some \<lparr>Path = ''../p.tfvars''\<rparr>),
           PrintfOverride ''common''],
          Inr \<lparr>Terraform = Some \<lparr>ExtraArgs = [commonApply, onlyParent],
                                   Source = ''git::https://x''\<rparr>,
               RemoteState = Some ''s3'', Dependencies = None\<rparr>)"
proof -
  have r: "ResolveTerragruntConfigString exampleEnv ''child'' None exampleOptions = Inr ''child''"
    by (simp add: exampleEnv_def)
  have d: "parseConfigStringAsTerragruntConfigFile exampleEnv ''child'' ''/l/a/terraform.tfvars''
             = Inr (Some childFile)"
    by (simp add: parseConfigStringAsTerragruntConfigFile_def isOldTerragruntConfig_def
          HasSuffix_def OldTerragruntConfigPath_def exampleEnv_def exampleDecode_def)
  have c: "convertToTerragruntConfig exampleEnv childFile exampleOptions = ([], Inr childConfig)"
    by (simp add: convertToTerragruntConfig_def childFile_def childConfig_def)
  have i: "parseIncludedConfig exampleEnv (Include childFile) exampleOptions
       = ([CallResolveString ''../p.tfvars'' None, CallReadFileAsString ''/l/a/../p.tfvars'',
           CallResolveString ''parent'' (Some \<lparr>Path = ''../p.tfvars''\<rparr>)],
          Inr (Some parentConfig))"
    by (simp add: example_defs pipeline_defs)
  have m: "mergeConfigWithIncludedConfig childConfig (Some parentConfig)
       = ([PrintfOverride ''common''],
          Inr \<lparr>Terraform = Some \<lparr>ExtraArgs = [commonApply, onlyParent],
                                   Source = ''git::https://x''\<rparr>,
               RemoteState = Some ''s3'', Dependencies = None\<rparr>)"
    by (simp add: mergeConfigWithIncludedConfig_def example_defs)
  from parseConfigString_step_order [OF r d,
         where config = childConfig and includedConfig = "Some parentConfig"]
       r d c i m
  show ?thesis by simp
qed

text \<open>
  The claim C7 as stated fails. The parent at \<open>/l/f\<close> has an empty backend and an
  include of its own. Its parse, with an include context, returns the error of the
  validation, which the conversion raises; with the steps in the claimed order the check
  of the inheritance depth would come first and the parse would return
  \<open>TooManyLevelsOfInheritance\<close>.
\<close>

theorem parseConfigString_step_order_counterexample:
  "parseConfigString exampleEnv ''invalid-chained''
       \<lparr>TerragruntConfigPath = ''/l/f/terraform.tfvars''\<rparr>
       (Some \<lparr>Path = ''../p.tfvars''\<rparr>) ''/l/f/../p.tfvars''
     = ([CallResolveString ''invalid-chained'' (Some \<lparr>Path = ''../p.tfvars''\<rparr>)],
        Inl (ExternalError ''the backend is missing''))
   \<and> claimedOrder_parseConfigString exampleEnv ''invalid-chained''
       \<lparr>TerragruntConfigPath = ''/l/f/terraform.tfvars''\<rparr>
       (Some \<lparr>Path = ''../p.tfvars''\<rparr>) ''/l/f/../p.tfvars''
     = ([CallResolveString ''invalid-chained'' (Some \<lparr>Path = ''../p.tfvars''\<rparr>)],
        Inl (TooManyLevelsOfInheritance ''/l/f/terraform.tfvars'' ''../p.tfvars''
               ''../root.tfvars''))
   \<and> parseConfigString exampleEnv ''invalid-chained''
       \<lparr>TerragruntConfigPath = ''/l/f/terraform.tfvars''\<rparr>
       (Some \<lparr>Path = ''../p.tfvars''\<rparr>) ''/l/f/../p.tfvars''
     \<noteq> claimedOrder_parseConfigString exampleEnv ''invalid-chained''
       \<lparr>TerragruntConfigPath = ''/l/f/terraform.tfvars''\<rparr>
       (Some \<lparr>Path = ''../p.tfvars''\<rparr>) ''/l/f/../p.tfvars''"
  by (simp add: example_defs pipeline_defs claimedOrder_parseConfigString_def)

end
